theory Spec2Isabelle
  imports Main "HOL-Library.Sublist"
begin

section \<open>Python strings\<close>

text \<open>
  A Python \<open>str\<close> is a sequence of Unicode code points, so a string is a list of
  code points here (a \<open>char\<close> of HOL is a byte and could not hold the non-ASCII
  characters of the prompt). \<open>str_of\<close> reads an ASCII literal.
\<close>

type_synonym pystr = "nat list"

definition str_of :: "string \<Rightarrow> pystr" where
  "str_of s = map of_char s"

text \<open>
  \<open>str.isspace\<close> on one code point: the whitespace table of CPython
  (TAB..CR, FS..US and SPACE, NEL, NBSP, and the Unicode space separators).
\<close>

definition py_isspace :: "nat \<Rightarrow> bool" where
  "py_isspace c \<longleftrightarrow>
     (0x09 \<le> c \<and> c \<le> 0x0D) \<or> (0x1C \<le> c \<and> c \<le> 0x20) \<or> c = 0x85 \<or> c = 0xA0 \<or>
     c = 0x1680 \<or> (0x2000 \<le> c \<and> c \<le> 0x200A) \<or> c = 0x2028 \<or> c = 0x2029 \<or>
     c = 0x202F \<or> c = 0x205F \<or> c = 0x3000"

text \<open>\<open>s.strip()\<close>: leading and trailing whitespace removed.\<close>

definition py_strip :: "pystr \<Rightarrow> pystr" where
  "py_strip s = rev (dropWhile py_isspace (rev (dropWhile py_isspace s)))"

text \<open>Truth value of a string in a condition: the empty string is false.\<close>

definition truthy :: "pystr \<Rightarrow> bool" where
  "truthy s \<longleftrightarrow> s \<noteq> []"

section \<open>Messages and the chat client\<close>

datatype role = System | User | Assistant

record message =
  role :: role
  content :: pystr

text \<open>
  The object returned by \<open>llm.invoke\<close>: it may or may not have a \<open>content\<close>
  attribute, and \<open>str\<close> renders it whole.
\<close>

datatype response = Response (content_attr: "pystr option") (str_form: pystr)

text \<open>
  The request is the list of (role, text) pairs handed to \<open>llm.invoke\<close>. The
  client is external: it answers or raises, so it is a parameter with a sum result,
  \<open>Inl\<close> the exception.
\<close>

type_synonym request = "(role \<times> pystr) list"

type_synonym 'e llm = "request \<Rightarrow> 'e + response"

section \<open>State of one script run\<close>

datatype ui_event = ErrorBox pystr | WarningBox pystr | ChatMessage role pystr

text \<open>
  \<open>chat_history\<close> is \<open>st.session_state.chat_history\<close>, the only state that
  survives a run. \<open>invocations\<close> records each request sent to the client during
  the run and \<open>screen\<close> what the run has drawn so far.
\<close>

record run_state =
  chat_history :: "message list"
  invocations :: "request list"
  screen :: "ui_event list"

text \<open>
  The values the widgets and the environment give to one run: the API key read from
  the environment, the text area, the button, and the chat input (\<open>None\<close> when
  nothing was submitted).
\<close>

record inputs =
  groq_api_key :: "pystr option"
  original_text :: pystr
  polish_clicked :: bool
  follow_up :: "pystr option"

datatype 'e outcome = Completed | Stopped | Raised 'e

section \<open>The humanizer function\<close>

definition base_prompt :: pystr where
  "base_prompt =
     str_of ''Your job is to act as a **professional humanizer and Grammarly-like editor**. '' @
     str_of ''Always fix grammar, spelling, and awkward phrasing. '' @
     str_of ''Make the text smooth, natural, and engaging while keeping the meaning unchanged. '' @
     str_of ''Do not add new facts.'' @ [0x0A, 0x0A]"

definition system_prompt :: pystr where
  "system_prompt =
     str_of ''You are a skilled editor. You polish articles to sound professional and human-like.''"

text \<open>
  The f-string of the extra instructions: U+26A1, the label, the stripped
  instructions and two newlines.
\<close>

definition extra_instructions :: "pystr \<Rightarrow> pystr" where
  "extra_instructions instructions =
     [0x26A1] @ str_of '' Extra instructions: '' @ py_strip instructions @ [0x0A, 0x0A]"

definition full_prompt :: "pystr \<Rightarrow> pystr \<Rightarrow> pystr" where
  "full_prompt text instructions =
     (let prompt = base_prompt;
          prompt = (if truthy (py_strip instructions)
                    then prompt @ extra_instructions instructions else prompt)
      in prompt @ text)"

definition request_messages :: "pystr \<Rightarrow> pystr \<Rightarrow> request" where
  "request_messages text instructions =
     [(System, system_prompt), (User, full_prompt text instructions)]"

text \<open>
  \<open>response.content if hasattr(response, "content") else str(response)\<close>
\<close>

definition response_text :: "response \<Rightarrow> pystr" where
  "response_text response =
     (case content_attr response of Some c \<Rightarrow> c | None \<Rightarrow> str_form response)"

definition humanize_via_groq ::
  "'e llm \<Rightarrow> pystr \<Rightarrow> pystr \<Rightarrow> run_state \<Rightarrow> ('e + pystr) \<times> run_state" where
  "humanize_via_groq llm text instructions s =
     (let request = request_messages text instructions;
          s' = s\<lparr>invocations := invocations s @ [request]\<rparr>
      in case llm request of
           Inl e \<Rightarrow> (Inl e, s')
         | Inr response \<Rightarrow> (Inr (response_text response), s'))"

section \<open>The script\<close>

definition append_message :: "role \<Rightarrow> pystr \<Rightarrow> run_state \<Rightarrow> run_state" where
  "append_message r c s = s\<lparr>chat_history := chat_history s @ [\<lparr>role = r, content = c\<rparr>]\<rparr>"

definition draw :: "ui_event \<Rightarrow> run_state \<Rightarrow> run_state" where
  "draw e s = s\<lparr>screen := screen s @ [e]\<rparr>"

definition missing_key_text :: pystr where
  "missing_key_text =
     [0x274C] @ str_of '' GROQ_API_KEY not set. Please add it in your .env file.''"

definition empty_article_text :: pystr where
  "empty_article_text = str_of ''Please paste your article before running.''"

text \<open>\<open>if not GROQ_API_KEY\<close>: the variable is unset or empty.\<close>

definition key_missing :: "inputs \<Rightarrow> bool" where
  "key_missing inp =
     (case groq_api_key inp of None \<Rightarrow> True | Some k \<Rightarrow> \<not> truthy k)"

text \<open>The first input box: shown, and its button read, only while the history is empty.\<close>

definition initial_block :: "'e llm \<Rightarrow> inputs \<Rightarrow> run_state \<Rightarrow> 'e outcome \<times> run_state" where
  "initial_block llm inp s =
     (if chat_history s = [] then
        (if polish_clicked inp then
           (if \<not> truthy (py_strip (original_text inp)) then
              (Completed, draw (WarningBox empty_article_text) s)
            else
              (case humanize_via_groq llm (original_text inp) [] s of
                 (Inl e, s1) \<Rightarrow> (Raised e, s1)
               | (Inr polished, s1) \<Rightarrow>
                   (Completed,
                    append_message Assistant polished
                      (append_message User (original_text inp) s1))))
         else (Completed, s))
      else (Completed, s))"

text \<open>The loop that displays the history, one chat bubble per stored message.\<close>

definition display_block :: "run_state \<Rightarrow> run_state" where
  "display_block s =
     s\<lparr>screen := screen s @
          map (\<lambda>chat. if role chat = User then ChatMessage User (content chat)
                       else ChatMessage Assistant (content chat))
              (chat_history s)\<rparr>"

text \<open>The text a refinement works on: the last assistant text, else the follow-up.\<close>

definition latest_text :: "message list \<Rightarrow> pystr \<Rightarrow> pystr" where
  "latest_text history follow =
     (let last_ai_texts = map content (filter (\<lambda>m. role m = Assistant) history)
      in if last_ai_texts \<noteq> [] then last last_ai_texts else follow)"

definition follow_up_block :: "'e llm \<Rightarrow> inputs \<Rightarrow> run_state \<Rightarrow> 'e outcome \<times> run_state" where
  "follow_up_block llm inp s =
     (case follow_up inp of
        None \<Rightarrow> (Completed, s)
      | Some f \<Rightarrow>
          (if truthy f then
             (let s1 = append_message User f s;
                  s2 = draw (ChatMessage User f) s1;
                  text = latest_text (chat_history s2) f
              in case humanize_via_groq llm text f s2 of
                   (Inl e, s3) \<Rightarrow> (Raised e, s3)
                 | (Inr polished, s3) \<Rightarrow>
                     (Completed,
                      draw (ChatMessage Assistant polished)
                        (append_message Assistant polished s3)))
           else (Completed, s)))"

text \<open>
  One run of the script from the stored history: the key check, the article box,
  the display of the history, the chat input. \<open>llm\<close> is the client that
  \<open>get_llm\<close> builds for the model selected in this run. A session that has no
  history yet gets the empty list before anything reads it, so a new session runs
  from \<open>[]\<close>. An exception ends the run where it is raised; the history keeps
  what was appended before, since the list in the session state is changed in place.
\<close>

definition run_script :: "'e llm \<Rightarrow> inputs \<Rightarrow> message list \<Rightarrow> 'e outcome \<times> run_state" where
  "run_script llm inp history =
     (let s = \<lparr>chat_history = history, invocations = [], screen = []\<rparr>
      in if key_missing inp then (Stopped, draw (ErrorBox missing_key_text) s)
         else
           (case initial_block llm inp s of
              (Completed, s1) \<Rightarrow> follow_up_block llm inp (display_block s1)
            | (other, s1) \<Rightarrow> (other, s1)))"

text \<open>The history a run leaves in the session state.\<close>

definition history_after :: "'e llm \<Rightarrow> inputs \<Rightarrow> message list \<Rightarrow> message list" where
  "history_after llm inp history = chat_history (snd (run_script llm inp history))"

text \<open>A session: one run after another, each with the client and inputs of its moment.\<close>

fun run_session :: "('e llm \<times> inputs) list \<Rightarrow> message list \<Rightarrow> message list" where
  "run_session [] history = history"
| "run_session ((llm, inp) # runs) history = run_session runs (history_after llm inp history)"

section \<open>Notions used in the statements\<close>

text \<open>\<open>if follow_up:\<close> holds: the chat input returned a non-empty string.\<close>

definition follow_up_submitted :: "inputs \<Rightarrow> bool" where
  "follow_up_submitted inp = (case follow_up inp of None \<Rightarrow> False | Some f \<Rightarrow> truthy f)"

text \<open>
  The button was clicked on an article that is not blank, and the client answers the
  request made for it.
\<close>

definition initial_turn_succeeds :: "'e llm \<Rightarrow> inputs \<Rightarrow> bool" where
  "initial_turn_succeeds llm inp \<longleftrightarrow>
     polish_clicked inp \<and> truthy (py_strip (original_text inp)) \<and>
     (case llm (request_messages (original_text inp) []) of Inl e \<Rightarrow> False | Inr r \<Rightarrow> True)"

text \<open>Two clients for concrete runs: one answers every request with \<open>r\<close>, one raises.\<close>

definition replying_client :: "response \<Rightarrow> unit llm" where
  "replying_client r request = Inr r"

definition raising_client :: "unit llm" where
  "raising_client request = Inl ()"

section \<open>Stripping and the latest text\<close>

lemma dropWhile_all_iff: "(\<forall>c\<in>set (dropWhile P s). P c) \<longleftrightarrow> (\<forall>c\<in>set s. P c)"
proof
  assume all: "\<forall>c\<in>set (dropWhile P s). P c"
  have "dropWhile P s = []"
  proof (cases "dropWhile P s")
    case Nil
    then show ?thesis .
  next
    case (Cons x xs)
    then have "\<not> P x"
      using hd_dropWhile [of P s] by auto
    with Cons all show ?thesis by auto
  qed
  then show "\<forall>c\<in>set s. P c" by simp
next
  assume "\<forall>c\<in>set s. P c"
  then show "\<forall>c\<in>set (dropWhile P s). P c"
    by (auto dest: set_dropWhileD)
qed

text \<open>A string strips to the empty string exactly when it is all whitespace.\<close>

lemma py_strip_empty_iff: "py_strip s = [] \<longleftrightarrow> (\<forall>c\<in>set s. py_isspace c)"
  by (simp add: py_strip_def dropWhile_all_iff)

lemma latest_text_last_assistant:
  assumes "\<forall>m\<in>set after. role m \<noteq> Assistant"
  shows "latest_text (before @ \<lparr>role = Assistant, content = A\<rparr> # after) f = A"
proof -
  have "filter (\<lambda>m. role m = Assistant) after = []"
    using assms by (simp add: filter_empty_conv)
  then show ?thesis by (simp add: latest_text_def)
qed

lemma latest_text_no_assistant:
  assumes "\<forall>m\<in>set history. role m \<noteq> Assistant"
  shows "latest_text history f = f"
proof -
  have "filter (\<lambda>m. role m = Assistant) history = []"
    using assms by (simp add: filter_empty_conv)
  then show ?thesis by (simp add: latest_text_def)
qed

text \<open>The follow-up just appended has role user, so it does not change the latest text.\<close>

lemma latest_text_user_snoc:
  "latest_text (history @ [\<lparr>role = User, content = c\<rparr>]) f = latest_text history f"
  by (simp add: latest_text_def)

lemma follow_up_block_skip:
  "\<not> follow_up_submitted inp \<Longrightarrow> follow_up_block llm inp s = (Completed, s)"
  by (simp add: follow_up_block_def follow_up_submitted_def split: option.splits)

lemma run_session_replicate_fixed:
  "history_after llm inp history = history \<Longrightarrow>
   run_session (replicate n (llm, inp)) history = history"
  by (induction n) simp_all

section \<open>Refinement turns\<close>

text \<open>
  C1. The history holds an assistant message with content \<open>A\<close> and none after it, and
  a non-empty follow-up \<open>f\<close> is submitted. The run sends exactly one request, the one
  assembled from text \<open>A\<close> and instructions \<open>f\<close>. When the client answers, the
  history grows by two entries: the user message \<open>f\<close>, then the assistant message
  with the text of the answer. The user message is appended before the call: it is
  there also when the client raises.
\<close>

theorem refinement_turn:
  assumes key: "\<not> key_missing inp"
    and f: "follow_up inp = Some f" "f \<noteq> []"
    and h: "history = before @ \<lparr>role = Assistant, content = A\<rparr> # after"
    and after: "\<forall>m\<in>set after. role m \<noteq> Assistant"
  shows "invocations (snd (run_script llm inp history)) = [request_messages A f] \<and>
    request_messages A f = [(System, system_prompt), (User, full_prompt A f)] \<and>
    (case llm (request_messages A f) of
       Inr resp \<Rightarrow>
         fst (run_script llm inp history) = Completed \<and>
         chat_history (snd (run_script llm inp history)) =
           history @ [\<lparr>role = User, content = f\<rparr>,
                      \<lparr>role = Assistant, content = response_text resp\<rparr>] \<and>
         length (chat_history (snd (run_script llm inp history))) = length history + 2
     | Inl e \<Rightarrow>
         fst (run_script llm inp history) = Raised e \<and>
         chat_history (snd (run_script llm inp history)) =
           history @ [\<lparr>role = User, content = f\<rparr>])"
proof -
  have lt: "latest_text (history @ [\<lparr>role = User, content = f\<rparr>]) f = A"
    using after by (simp add: h latest_text_user_snoc latest_text_last_assistant
        del: append_assoc append_Cons)
  have ne: "history \<noteq> []" by (simp add: h)
  have "request_messages A f = [(System, system_prompt), (User, full_prompt A f)]"
    by (simp add: request_messages_def)
  moreover have "invocations (snd (run_script llm inp history)) = [request_messages A f] \<and>
    (case llm (request_messages A f) of
       Inr resp \<Rightarrow>
         fst (run_script llm inp history) = Completed \<and>
         chat_history (snd (run_script llm inp history)) =
           history @ [\<lparr>role = User, content = f\<rparr>,
                      \<lparr>role = Assistant, content = response_text resp\<rparr>] \<and>
         length (chat_history (snd (run_script llm inp history))) = length history + 2
     | Inl e \<Rightarrow>
         fst (run_script llm inp history) = Raised e \<and>
         chat_history (snd (run_script llm inp history)) =
           history @ [\<lparr>role = User, content = f\<rparr>])"
    using key f ne lt
    by (simp add: run_script_def initial_block_def follow_up_block_def display_block_def
        humanize_via_groq_def append_message_def draw_def truthy_def Let_def
        split: sum.splits)
  ultimately show ?thesis by simp
qed

theorem refinement_turn_witness:
  "invocations (snd (run_script (replying_client (Response (Some (str_of ''B'')) []))
       \<lparr>groq_api_key = Some (str_of ''k''), original_text = [], polish_clicked = False,
        follow_up = Some (str_of ''make it shorter'')\<rparr>
       [\<lparr>role = User, content = str_of ''Hello world.''\<rparr>,
        \<lparr>role = Assistant, content = str_of ''A''\<rparr>]))
     = [request_messages (str_of ''A'') (str_of ''make it shorter'')] \<and>
   chat_history (snd (run_script (replying_client (Response (Some (str_of ''B'')) []))
       \<lparr>groq_api_key = Some (str_of ''k''), original_text = [], polish_clicked = False,
        follow_up = Some (str_of ''make it shorter'')\<rparr>
       [\<lparr>role = User, content = str_of ''Hello world.''\<rparr>,
        \<lparr>role = Assistant, content = str_of ''A''\<rparr>]))
     = [\<lparr>role = User, content = str_of ''Hello world.''\<rparr>,
        \<lparr>role = Assistant, content = str_of ''A''\<rparr>,
        \<lparr>role = User, content = str_of ''make it shorter''\<rparr>,
        \<lparr>role = Assistant, content = str_of ''B''\<rparr>]"
  using refinement_turn
    [of "\<lparr>groq_api_key = Some (str_of ''k''), original_text = [], polish_clicked = False,
          follow_up = Some (str_of ''make it shorter'')\<rparr>"
        "str_of ''make it shorter''"
        "[\<lparr>role = User, content = str_of ''Hello world.''\<rparr>,
          \<lparr>role = Assistant, content = str_of ''A''\<rparr>]"
        "[\<lparr>role = User, content = str_of ''Hello world.''\<rparr>]"
        "str_of ''A''" "[]"
        "replying_client (Response (Some (str_of ''B'')) [])"]
  by (simp add: key_missing_def truthy_def str_of_def replying_client_def response_text_def)

section \<open>Initial turns\<close>

text \<open>
  C2. The history is empty, the button is clicked on an article whose stripped value
  is not empty, and the client answers. The run completes with a history of two
  entries: the user message with the article as it was typed, then the assistant
  message with the text of the answer. The one request sent is assembled from the
  article and empty instructions.
\<close>

theorem initial_turn:
  assumes key: "\<not> key_missing inp"
    and click: "polish_clicked inp"
    and nonblank: "py_strip (original_text inp) \<noteq> []"
    and nofollow: "\<not> follow_up_submitted inp"
    and ok: "llm (request_messages (original_text inp) []) = Inr resp"
  shows "fst (run_script llm inp []) = Completed \<and>
    chat_history (snd (run_script llm inp [])) =
      [\<lparr>role = User, content = original_text inp\<rparr>,
       \<lparr>role = Assistant, content = response_text resp\<rparr>] \<and>
    length (chat_history (snd (run_script llm inp []))) = 2 \<and>
    invocations (snd (run_script llm inp [])) = [request_messages (original_text inp) []]"
  using assms
  by (simp add: run_script_def initial_block_def display_block_def
      humanize_via_groq_def append_message_def draw_def truthy_def Let_def follow_up_block_skip)

theorem initial_turn_witness:
  "fst (run_script (replying_client (Response (Some (str_of ''Hello, world.'')) []))
       \<lparr>groq_api_key = Some (str_of ''k''), original_text = str_of '' Hello world. '',
        polish_clicked = True, follow_up = None\<rparr> []) = Completed \<and>
   chat_history (snd (run_script (replying_client (Response (Some (str_of ''Hello, world.'')) []))
       \<lparr>groq_api_key = Some (str_of ''k''), original_text = str_of '' Hello world. '',
        polish_clicked = True, follow_up = None\<rparr> []))
     = [\<lparr>role = User, content = str_of '' Hello world. ''\<rparr>,
        \<lparr>role = Assistant, content = str_of ''Hello, world.''\<rparr>]"
  using initial_turn
    [of "\<lparr>groq_api_key = Some (str_of ''k''), original_text = str_of '' Hello world. '',
          polish_clicked = True, follow_up = None\<rparr>"
        "replying_client (Response (Some (str_of ''Hello, world.'')) [])"
        "Response (Some (str_of ''Hello, world.'')) []"]
  by (simp add: key_missing_def truthy_def str_of_def replying_client_def response_text_def
      follow_up_submitted_def py_strip_def py_isspace_def)

text \<open>
  C3. The history is empty and the button is clicked on an article that is empty or
  all whitespace. The run completes with a warning on the screen, sends no request
  and appends nothing: the history still has length 0, and it is still empty after
  any number of such runs.
\<close>

theorem blank_article_rejected:
  assumes key: "\<not> key_missing inp"
    and click: "polish_clicked inp"
    and blank: "\<forall>c\<in>set (original_text inp). py_isspace c"
    and nofollow: "\<not> follow_up_submitted inp"
  shows "fst (run_script llm inp []) = Completed \<and>
    invocations (snd (run_script llm inp [])) = [] \<and>
    chat_history (snd (run_script llm inp [])) = [] \<and>
    length (chat_history (snd (run_script llm inp []))) = 0 \<and>
    screen (snd (run_script llm inp [])) = [WarningBox empty_article_text] \<and>
    run_session (replicate n (llm, inp)) [] = []"
proof -
  have strip: "py_strip (original_text inp) = []"
    using blank by (simp add: py_strip_empty_iff)
  have run: "run_script llm inp [] =
      (Completed, \<lparr>chat_history = [], invocations = [], screen = [WarningBox empty_article_text]\<rparr>)"
    using key click strip nofollow
    by (simp add: run_script_def initial_block_def display_block_def draw_def truthy_def
        follow_up_block_skip)
  then have "history_after llm inp [] = []"
    by (simp add: history_after_def)
  then have "run_session (replicate n (llm, inp)) [] = []"
    by (rule run_session_replicate_fixed)
  with run show ?thesis by simp
qed

theorem blank_article_rejected_witness:
  "invocations (snd (run_script raising_client
       \<lparr>groq_api_key = Some (str_of ''k''), original_text = str_of ''   '',
        polish_clicked = True, follow_up = None\<rparr> [])) = [] \<and>
   chat_history (snd (run_script raising_client
       \<lparr>groq_api_key = Some (str_of ''k''), original_text = str_of ''   '',
        polish_clicked = True, follow_up = None\<rparr> [])) = [] \<and>
   run_session (replicate 3 (raising_client,
       \<lparr>groq_api_key = Some (str_of ''k''), original_text = str_of ''   '',
        polish_clicked = True, follow_up = None\<rparr>)) [] = []"
  using blank_article_rejected
    [of "\<lparr>groq_api_key = Some (str_of ''k''), original_text = str_of ''   '',
          polish_clicked = True, follow_up = None\<rparr>" raising_client 3]
  by (simp add: key_missing_def truthy_def str_of_def follow_up_submitted_def py_isspace_def)

section \<open>The assembled prompt\<close>

text \<open>
  C4. For every text \<open>t\<close> and instructions \<open>i\<close>, the user message is the base
  block, then, exactly when \<open>i\<close> stripped is not empty, the line that echoes the
  stripped instructions, then \<open>t\<close> itself, last and unchanged. With empty
  instructions, what follows the base block is \<open>t\<close>.
\<close>

theorem full_prompt_layout:
  "full_prompt t i =
     base_prompt @
     (if py_strip i \<noteq> []
      then [0x26A1] @ str_of '' Extra instructions: '' @ py_strip i @ [0x0A, 0x0A] else []) @
     t \<and>
   drop (length base_prompt) (full_prompt t []) = t"
  by (simp add: full_prompt_def extra_instructions_def truthy_def py_strip_def)

text \<open>
  C5. For every text, instructions that are all whitespace give the same prompt as
  empty instructions: the base block followed by the text, with no instructions line.
  Three spaces are one such case.
\<close>

theorem blank_instructions_omitted:
  assumes "\<forall>c\<in>set w. py_isspace c"
  shows "full_prompt t w = full_prompt t [] \<and> full_prompt t w = base_prompt @ t \<and>
    full_prompt t (str_of ''   '') = full_prompt t []"
proof -
  have "py_strip w = []" using assms by (simp add: py_strip_empty_iff)
  moreover have "py_strip (str_of ''   '') = []"
    by (simp add: py_strip_empty_iff str_of_def py_isspace_def)
  moreover have "py_strip [] = []" by (simp add: py_strip_def)
  ultimately show ?thesis by (simp add: full_prompt_def truthy_def)
qed

theorem blank_instructions_omitted_witness:
  "full_prompt (str_of ''T'') [0x09, 0x20, 0xA0] = full_prompt (str_of ''T'') [] \<and>
   full_prompt (str_of ''T'') [0x09, 0x20, 0xA0] = base_prompt @ str_of ''T''"
  using blank_instructions_omitted [of "[0x09, 0x20, 0xA0]" "str_of ''T''"]
  by (auto simp: py_isspace_def)

section \<open>Refinement without an assistant message\<close>

text \<open>
  C6. A non-empty follow-up \<open>f\<close> is submitted while the history holds no assistant
  message (the empty history included, when the button is not clicked in the same
  run). The latest text falls back to \<open>f\<close>: the one request sent is assembled from
  text \<open>f\<close> and instructions \<open>f\<close>.
\<close>

theorem refinement_fallback:
  assumes key: "\<not> key_missing inp"
    and f: "follow_up inp = Some f" "f \<noteq> []"
    and noai: "\<forall>m\<in>set history. role m \<noteq> Assistant"
    and nobutton: "history = [] \<longrightarrow> \<not> polish_clicked inp"
  shows "latest_text (history @ [\<lparr>role = User, content = f\<rparr>]) f = f \<and>
    invocations (snd (run_script llm inp history)) = [request_messages f f] \<and>
    (case llm (request_messages f f) of
       Inr resp \<Rightarrow>
         chat_history (snd (run_script llm inp history)) =
           history @ [\<lparr>role = User, content = f\<rparr>,
                      \<lparr>role = Assistant, content = response_text resp\<rparr>]
     | Inl e \<Rightarrow>
         chat_history (snd (run_script llm inp history)) =
           history @ [\<lparr>role = User, content = f\<rparr>])"
proof -
  have lt: "latest_text (history @ [\<lparr>role = User, content = f\<rparr>]) f = f"
    using noai by (simp add: latest_text_user_snoc latest_text_no_assistant)
  have init: "initial_block llm inp \<lparr>chat_history = history, invocations = [], screen = []\<rparr>
      = (Completed, \<lparr>chat_history = history, invocations = [], screen = []\<rparr>)"
    using nobutton by (simp add: initial_block_def)
  show ?thesis
    using key f lt
    by (simp add: run_script_def init follow_up_block_def display_block_def
        humanize_via_groq_def append_message_def draw_def truthy_def Let_def split: sum.splits)
qed

theorem refinement_fallback_witness:
  "invocations (snd (run_script raising_client
       \<lparr>groq_api_key = Some (str_of ''k''), original_text = [], polish_clicked = False,
        follow_up = Some (str_of ''hi'')\<rparr> []))
     = [request_messages (str_of ''hi'') (str_of ''hi'')] \<and>
   chat_history (snd (run_script raising_client
       \<lparr>groq_api_key = Some (str_of ''k''), original_text = [], polish_clicked = False,
        follow_up = Some (str_of ''hi'')\<rparr> []))
     = [\<lparr>role = User, content = str_of ''hi''\<rparr>]"
  using refinement_fallback
    [of "\<lparr>groq_api_key = Some (str_of ''k''), original_text = [], polish_clicked = False,
          follow_up = Some (str_of ''hi'')\<rparr>" "str_of ''hi''" "[]" raising_client]
  by (simp add: key_missing_def truthy_def str_of_def raising_client_def)

section \<open>The response and client failures\<close>

text \<open>
  C7. When the client answers, the humanizer returns a text and does not fail: the
  string form of the whole response when it has no \<open>content\<close> attribute, the
  value of the attribute, unchanged, when it has one.
\<close>

theorem response_without_content:
  assumes "llm (request_messages t i) = Inr resp"
  shows "(content_attr resp = None \<longrightarrow>
            fst (humanize_via_groq llm t i s) = Inr (str_form resp)) \<and>
         (\<forall>c. content_attr resp = Some c \<longrightarrow>
            fst (humanize_via_groq llm t i s) = Inr c)"
  using assms by (simp add: humanize_via_groq_def response_text_def Let_def)

theorem response_without_content_witness:
  "fst (humanize_via_groq (replying_client (Response None (str_of ''raw'')))
        (str_of ''T'') [] \<lparr>chat_history = [], invocations = [], screen = []\<rparr>)
     = Inr (str_of ''raw'') \<and>
   fst (humanize_via_groq (replying_client (Response (Some (str_of ''ok'')) (str_of ''raw'')))
        (str_of ''T'') [] \<lparr>chat_history = [], invocations = [], screen = []\<rparr>)
     = Inr (str_of ''ok'')"
  using response_without_content
    [of "replying_client (Response None (str_of ''raw''))" "str_of ''T''" "[]"
        "Response None (str_of ''raw'')"
        "\<lparr>chat_history = [], invocations = [], screen = []\<rparr>"]
    response_without_content
    [of "replying_client (Response (Some (str_of ''ok'')) (str_of ''raw''))" "str_of ''T''" "[]"
        "Response (Some (str_of ''ok'')) (str_of ''raw'')"
        "\<lparr>chat_history = [], invocations = [], screen = []\<rparr>"]
  by (simp add: replying_client_def)

text \<open>
  C8. The history is empty, the button is clicked on an article that is not blank,
  and the client raises. The run ends with that exception and the history is still
  empty: the user message is appended only after the call has returned.
\<close>

theorem initial_turn_client_failure:
  assumes key: "\<not> key_missing inp"
    and click: "polish_clicked inp"
    and nonblank: "py_strip (original_text inp) \<noteq> []"
    and fail: "llm (request_messages (original_text inp) []) = Inl e"
  shows "fst (run_script llm inp []) = Raised e \<and>
    chat_history (snd (run_script llm inp [])) = [] \<and>
    invocations (snd (run_script llm inp [])) = [request_messages (original_text inp) []] \<and>
    history_after llm inp [] = []"
  using assms
  by (simp add: run_script_def initial_block_def humanize_via_groq_def truthy_def Let_def
      history_after_def)

theorem initial_turn_client_failure_witness:
  "fst (run_script raising_client
       \<lparr>groq_api_key = Some (str_of ''k''), original_text = str_of ''Hello world.'',
        polish_clicked = True, follow_up = None\<rparr> []) = Raised () \<and>
   chat_history (snd (run_script raising_client
       \<lparr>groq_api_key = Some (str_of ''k''), original_text = str_of ''Hello world.'',
        polish_clicked = True, follow_up = None\<rparr> [])) = []"
  using initial_turn_client_failure
    [of "\<lparr>groq_api_key = Some (str_of ''k''), original_text = str_of ''Hello world.'',
          polish_clicked = True, follow_up = None\<rparr>" raising_client "()"]
  by (simp add: key_missing_def truthy_def str_of_def raising_client_def
      py_strip_def py_isspace_def)

section \<open>The history only grows\<close>

lemma history_after_prefix: "prefix history (history_after llm inp history)"
  by (simp add: history_after_def run_script_def initial_block_def follow_up_block_def
      display_block_def humanize_via_groq_def append_message_def draw_def Let_def
      split: sum.splits option.splits)

lemma run_session_prefix: "prefix history (run_session runs history)"
proof (induction runs arbitrary: history)
  case Nil
  then show ?case by simp
next
  case (Cons r runs)
  obtain llm inp where r: "r = (llm, inp)" by (cases r)
  have "prefix history (history_after llm inp history)"
    by (rule history_after_prefix)
  also have "prefix (history_after llm inp history)
      (run_session runs (history_after llm inp history))"
    by (rule Cons.IH)
  finally show ?case by (simp add: r)
qed

lemma leaves_empty_only_if:
  "history_after llm inp [] \<noteq> [] \<Longrightarrow> initial_turn_succeeds llm inp \<or> follow_up_submitted inp"
  by (simp add: history_after_def run_script_def initial_block_def follow_up_block_def
      display_block_def humanize_via_groq_def append_message_def draw_def Let_def
      initial_turn_succeeds_def follow_up_submitted_def
      split: sum.splits option.splits if_splits)

lemma initial_success_leaves_empty:
  "\<not> key_missing inp \<Longrightarrow> initial_turn_succeeds llm inp \<Longrightarrow> history_after llm inp [] \<noteq> []"
  by (simp add: history_after_def run_script_def initial_block_def follow_up_block_def
      display_block_def humanize_via_groq_def append_message_def draw_def Let_def
      initial_turn_succeeds_def
      split: sum.splits option.splits)

lemma follow_up_leaves_empty:
  "\<not> key_missing inp \<Longrightarrow> \<not> polish_clicked inp \<Longrightarrow> follow_up_submitted inp \<Longrightarrow>
   history_after llm inp [] \<noteq> []"
  by (auto simp: history_after_def run_script_def initial_block_def follow_up_block_def
      display_block_def humanize_via_groq_def append_message_def draw_def Let_def
      follow_up_submitted_def
      split: sum.splits option.splits)

text \<open>
  C9, as stated, fails. The chat input is there from the first run on. From the empty
  history, with the button not clicked, the follow-up \<open>hi\<close> makes the history
  non-empty although no initial turn succeeded (here the client even raises).
\<close>

theorem store_left_empty_by_follow_up:
  "history_after raising_client
     \<lparr>groq_api_key = Some (str_of ''k''), original_text = [], polish_clicked = False,
      follow_up = Some (str_of ''hi'')\<rparr> []
     = [\<lparr>role = User, content = str_of ''hi''\<rparr>] \<and>
   \<not> initial_turn_succeeds raising_client
     \<lparr>groq_api_key = Some (str_of ''k''), original_text = [], polish_clicked = False,
      follow_up = Some (str_of ''hi'')\<rparr>"
  by (simp add: history_after_def run_script_def initial_block_def follow_up_block_def
      display_block_def humanize_via_groq_def append_message_def draw_def Let_def
      key_missing_def truthy_def str_of_def raising_client_def initial_turn_succeeds_def)

text \<open>
  C9, amended. Every run, and so every sequence of runs, leaves a history that
  extends the one it started from: nothing stored is removed or rewritten, and a
  non-empty history never becomes empty. The history leaves the empty state only in
  a run where the initial turn succeeds or a non-empty follow-up is submitted; with
  the API key set, a successful initial turn does make it non-empty, and so does a
  non-empty follow-up submitted without the button, whatever the client does.
\<close>

theorem store_append_only:
  "prefix history (history_after llm inp history) \<and>
   prefix history (run_session runs history) \<and>
   (history \<noteq> [] \<longrightarrow> run_session runs history \<noteq> []) \<and>
   (history_after llm inp [] \<noteq> [] \<longrightarrow>
      initial_turn_succeeds llm inp \<or> follow_up_submitted inp) \<and>
   (\<not> key_missing inp \<and> initial_turn_succeeds llm inp \<longrightarrow> history_after llm inp [] \<noteq> []) \<and>
   (\<not> key_missing inp \<and> \<not> polish_clicked inp \<and> follow_up_submitted inp \<longrightarrow>
      history_after llm inp [] \<noteq> [])"
proof -
  have "history \<noteq> [] \<longrightarrow> run_session runs history \<noteq> []"
    using run_session_prefix [of history runs] by auto
  then show ?thesis
    using history_after_prefix run_session_prefix leaves_empty_only_if
      initial_success_leaves_empty follow_up_leaves_empty
    by blast
qed

theorem store_append_only_witness:
  "prefix [\<lparr>role = User, content = str_of ''x''\<rparr>]
     (run_session
        [(raising_client,
          \<lparr>groq_api_key = Some (str_of ''k''), original_text = [], polish_clicked = False,
           follow_up = Some (str_of ''hi'')\<rparr>)]
        [\<lparr>role = User, content = str_of ''x''\<rparr>]) \<and>
   run_session
        [(raising_client,
          \<lparr>groq_api_key = Some (str_of ''k''), original_text = [], polish_clicked = False,
           follow_up = Some (str_of ''hi'')\<rparr>)]
        [\<lparr>role = User, content = str_of ''x''\<rparr>] \<noteq> [] \<and>
   history_after raising_client
     \<lparr>groq_api_key = Some (str_of ''k''), original_text = [], polish_clicked = False,
      follow_up = Some (str_of ''hi'')\<rparr> [] \<noteq> [] \<and>
   follow_up_submitted
     \<lparr>groq_api_key = Some (str_of ''k''), original_text = [], polish_clicked = False,
      follow_up = Some (str_of ''hi'')\<rparr> \<and>
   history_after (replying_client (Response (Some (str_of ''B'')) []))
     \<lparr>groq_api_key = Some (str_of ''k''), original_text = str_of ''Hello world.'',
      polish_clicked = True, follow_up = None\<rparr> [] \<noteq> [] \<and>
   initial_turn_succeeds (replying_client (Response (Some (str_of ''B'')) []))
     \<lparr>groq_api_key = Some (str_of ''k''), original_text = str_of ''Hello world.'',
      polish_clicked = True, follow_up = None\<rparr>"
  using store_append_only
    [of "[\<lparr>role = User, content = str_of ''x''\<rparr>]" raising_client
        "\<lparr>groq_api_key = Some (str_of ''k''), original_text = [], polish_clicked = False,
          follow_up = Some (str_of ''hi'')\<rparr>"
        "[(raising_client,
          \<lparr>groq_api_key = Some (str_of ''k''), original_text = [], polish_clicked = False,
           follow_up = Some (str_of ''hi'')\<rparr>)]"]
    store_append_only
    [of "[]" "replying_client (Response (Some (str_of ''B'')) [])"
        "\<lparr>groq_api_key = Some (str_of ''k''), original_text = str_of ''Hello world.'',
          polish_clicked = True, follow_up = None\<rparr>" "[]"]
  by (simp add: key_missing_def truthy_def str_of_def follow_up_submitted_def
      initial_turn_succeeds_def replying_client_def py_strip_def py_isspace_def)

section \<open>Whitespace follow-ups\<close>

text \<open>
  C10. With a non-empty history, a follow-up that is not empty but all whitespace
  runs a full turn: the raw follow-up is appended as a user message, one request is
  sent whose user message is the base block followed by the latest text, with no
  instructions line, and the assistant message is appended when the client answers.
  The empty string runs no turn: no request, the history unchanged.
\<close>

theorem whitespace_follow_up:
  assumes key: "\<not> key_missing inp"
    and ne: "history \<noteq> []"
    and f: "f \<noteq> []" "\<forall>c\<in>set f. py_isspace c"
  shows "full_prompt (latest_text history f) f = base_prompt @ latest_text history f \<and>
    invocations (snd (run_script llm (inp\<lparr>follow_up := Some f\<rparr>) history)) =
      [[(System, system_prompt), (User, base_prompt @ latest_text history f)]] \<and>
    (case llm [(System, system_prompt), (User, base_prompt @ latest_text history f)] of
       Inr resp \<Rightarrow>
         fst (run_script llm (inp\<lparr>follow_up := Some f\<rparr>) history) = Completed \<and>
         chat_history (snd (run_script llm (inp\<lparr>follow_up := Some f\<rparr>) history)) =
           history @ [\<lparr>role = User, content = f\<rparr>,
                      \<lparr>role = Assistant, content = response_text resp\<rparr>]
     | Inl e \<Rightarrow>
         fst (run_script llm (inp\<lparr>follow_up := Some f\<rparr>) history) = Raised e \<and>
         chat_history (snd (run_script llm (inp\<lparr>follow_up := Some f\<rparr>) history)) =
           history @ [\<lparr>role = User, content = f\<rparr>]) \<and>
    fst (run_script llm (inp\<lparr>follow_up := Some []\<rparr>) history) = Completed \<and>
    chat_history (snd (run_script llm (inp\<lparr>follow_up := Some []\<rparr>) history)) = history \<and>
    invocations (snd (run_script llm (inp\<lparr>follow_up := Some []\<rparr>) history)) = []"
proof -
  have strip: "py_strip f = []"
    using f by (simp add: py_strip_empty_iff)
  then have prompt: "full_prompt (latest_text history f) f = base_prompt @ latest_text history f"
    by (simp add: full_prompt_def truthy_def)
  have key': "\<not> key_missing (inp\<lparr>follow_up := x\<rparr>)" for x
    using key by (simp add: key_missing_def)
  have turn: "invocations (snd (run_script llm (inp\<lparr>follow_up := Some f\<rparr>) history)) =
      [request_messages (latest_text history f) f] \<and>
    (case llm (request_messages (latest_text history f) f) of
       Inr resp \<Rightarrow>
         fst (run_script llm (inp\<lparr>follow_up := Some f\<rparr>) history) = Completed \<and>
         chat_history (snd (run_script llm (inp\<lparr>follow_up := Some f\<rparr>) history)) =
           history @ [\<lparr>role = User, content = f\<rparr>,
                      \<lparr>role = Assistant, content = response_text resp\<rparr>]
     | Inl e \<Rightarrow>
         fst (run_script llm (inp\<lparr>follow_up := Some f\<rparr>) history) = Raised e \<and>
         chat_history (snd (run_script llm (inp\<lparr>follow_up := Some f\<rparr>) history)) =
           history @ [\<lparr>role = User, content = f\<rparr>])"
    using key' ne f(1)
    by (simp add: run_script_def initial_block_def follow_up_block_def display_block_def
        humanize_via_groq_def append_message_def draw_def truthy_def Let_def
        latest_text_user_snoc split: sum.splits)
  have skip: "fst (run_script llm (inp\<lparr>follow_up := Some []\<rparr>) history) = Completed \<and>
    chat_history (snd (run_script llm (inp\<lparr>follow_up := Some []\<rparr>) history)) = history \<and>
    invocations (snd (run_script llm (inp\<lparr>follow_up := Some []\<rparr>) history)) = []"
    using key' ne
    by (simp add: run_script_def initial_block_def follow_up_block_def display_block_def
        truthy_def)
  from prompt turn skip show ?thesis
    by (simp add: request_messages_def)
qed

theorem whitespace_follow_up_witness:
  "invocations (snd (run_script (replying_client (Response (Some (str_of ''B'')) []))
       \<lparr>groq_api_key = Some (str_of ''k''), original_text = [], polish_clicked = False,
        follow_up = Some (str_of ''   '')\<rparr>
       [\<lparr>role = User, content = str_of ''x''\<rparr>, \<lparr>role = Assistant, content = str_of ''A''\<rparr>]))
     = [[(System, system_prompt), (User, base_prompt @ str_of ''A'')]] \<and>
   chat_history (snd (run_script (replying_client (Response (Some (str_of ''B'')) []))
       \<lparr>groq_api_key = Some (str_of ''k''), original_text = [], polish_clicked = False,
        follow_up = Some (str_of ''   '')\<rparr>
       [\<lparr>role = User, content = str_of ''x''\<rparr>, \<lparr>role = Assistant, content = str_of ''A''\<rparr>]))
     = [\<lparr>role = User, content = str_of ''x''\<rparr>, \<lparr>role = Assistant, content = str_of ''A''\<rparr>,
        \<lparr>role = User, content = str_of ''   ''\<rparr>, \<lparr>role = Assistant, content = str_of ''B''\<rparr>] \<and>
   chat_history (snd (run_script (replying_client (Response (Some (str_of ''B'')) []))
       \<lparr>groq_api_key = Some (str_of ''k''), original_text = [], polish_clicked = False,
        follow_up = Some []\<rparr>
       [\<lparr>role = User, content = str_of ''x''\<rparr>, \<lparr>role = Assistant, content = str_of ''A''\<rparr>]))
     = [\<lparr>role = User, content = str_of ''x''\<rparr>, \<lparr>role = Assistant, content = str_of ''A''\<rparr>]"
  using whitespace_follow_up
    [of "\<lparr>groq_api_key = Some (str_of ''k''), original_text = [], polish_clicked = False,
          follow_up = None\<rparr>"
        "[\<lparr>role = User, content = str_of ''x''\<rparr>, \<lparr>role = Assistant, content = str_of ''A''\<rparr>]"
        "str_of ''   ''" "replying_client (Response (Some (str_of ''B'')) [])"]
  by (simp add: key_missing_def truthy_def str_of_def replying_client_def response_text_def
      py_isspace_def latest_text_def)

end
